theory Spec2Isabelle
  imports Main "HOL-Library.Word"
begin

unbundle bit_operations_syntax

section \<open>The filesystem service of \<^verbatim>\<open>core/hle/service/filesystem/fsp_srv.cpp\<close>\<close>

text \<open>
  The file defines four service objects (\<^verbatim>\<open>IStorage\<close>, \<^verbatim>\<open>IFile\<close>, \<^verbatim>\<open>IDirectory\<close>,
  \<^verbatim>\<open>IFileSystem\<close>) and the top-level service \<^verbatim>\<open>FSP_SRV\<close>. Every command handler is a
  \<^verbatim>\<open>void\<close> method that reads its arguments from the request context, calls the backend
  it owns and writes a response into the same context. Here a handler is a function from
  the context and the state of the outside world to the updated context and state; a
  handler that an assertion or an exception can stop returns an option, \<^const>\<open>None\<close> for
  the handler that built no response.
\<close>

subsection \<open>Machine integers and result codes\<close>

type_synonym u8 = "8 word"
type_synonym u32 = "32 word"
type_synonym u64 = "64 word"

text \<open>\<^verbatim>\<open>s64\<close> has the bits of a \<^verbatim>\<open>u64\<close>; \<^term>\<open>sint\<close> reads them as two's complement.\<close>

type_synonym s64 = "64 word"

datatype ErrorModule = FS

datatype ErrorDescription = InvalidLength | InvalidOffset

text \<open>
  A \<^verbatim>\<open>ResultCode\<close> is built either from a raw 32-bit value (\<^verbatim>\<open>ResultCode(-1)\<close>,
  \<^verbatim>\<open>RESULT_SUCCESS\<close>) or from a module and a description. The bit layout of the second
  form and the numbers behind the two enumerations are fixed by \<^verbatim>\<open>core/hle/result.h\<close>,
  which is not among the sources here, so such a code is kept symbolic.
\<close>

datatype ResultCode = ResultCode u32 | ResultCode_of ErrorModule ErrorDescription

definition RESULT_SUCCESS :: ResultCode where
  "RESULT_SUCCESS = ResultCode 0"

text \<open>
  \<^verbatim>\<open>ResultVal<T>\<close> holds either the error code of a failed call (\<^verbatim>\<open>Failed()\<close>,
  \<^verbatim>\<open>Code()\<close>) or the value of a successful one.
\<close>

type_synonym 'a ResultVal = "ResultCode + 'a"

text \<open>
  \<^verbatim>\<open>Unwrap()\<close> gives the value back (\<^verbatim>\<open>core/hle/result.h\<close> again). A failed
  \<^verbatim>\<open>ResultVal\<close> holds no value: the method asserts that the call succeeded, and
  \<^const>\<open>None\<close> stands for the failed assertion.
\<close>

definition Unwrap :: "'a ResultVal \<Rightarrow> 'a option" where
  "Unwrap res = (case res of Inl code \<Rightarrow> None | Inr v \<Rightarrow> Some v)"

subsection \<open>Request context, request parser and response builder\<close>

text \<open>
  The objects a handler can attach to its response with \<^verbatim>\<open>PushIpcInterface\<close>, each
  owning the backend handle it was constructed from.
\<close>

datatype ('sb, 'db, 'fb) service_object =
    IStorage 'sb
  | IFile 'sb
  | IDirectory 'db
  | IFileSystem 'fb

datatype 'o rb_item =
    PushResult ResultCode
  | PushU32 u32
  | PushU64 u64
  | PushIpcInterface 'o

text \<open>
  Modelled from the spec: \<^verbatim>\<open>IPC::ResponseBuilder\<close> (\<^verbatim>\<open>core/hle/ipc_helpers.h\<close> is
  not among the sources). A response is the status, the ordered scalar results and at most
  one child object; the builder is constructed with the number of normal parameter words,
  of handles to copy and of objects to move, and every \<^verbatim>\<open>Push\<close> appends one item.
\<close>

record 'o ResponseBuilder =
  normal_params_size :: nat
  num_handles_to_copy :: nat
  num_objects_to_move :: nat
  pushed :: "'o rb_item list"

text \<open>
  Modelled from the spec: \<^verbatim>\<open>Kernel::HLERequestContext\<close> (\<^verbatim>\<open>core/hle/kernel/hle_ipc.h\<close>
  is not among the sources). A request carries the ordered scalar-argument block (the
  32-bit words of the command buffer that follow the command id), an optional input
  byte buffer and the capacity of the output buffer; the response side carries the bulk
  output payload and the response built by the handler.
\<close>

record 'o HLERequestContext =
  cmd_buf :: "nat \<Rightarrow> u32"
  read_buffer :: "u8 list"
  write_buffer_size :: u64
  write_buffer :: "u8 list option"
  response :: "'o ResponseBuilder option"

text \<open>
  Modelled from the spec: the methods \<^verbatim>\<open>ReadBuffer\<close>, \<^verbatim>\<open>GetWriteBufferSize\<close> and
  \<^verbatim>\<open>WriteBuffer\<close> of the context (\<^verbatim>\<open>hle_ipc.cpp\<close> is not among the sources): the input
  byte buffer, the capacity of the output buffer, and the bulk output payload, which
  \<^verbatim>\<open>ctx.WriteBuffer(output)\<close> sets to the whole vector it is given.
\<close>

definition ReadBuffer :: "'o HLERequestContext \<Rightarrow> u8 list" where
  "ReadBuffer ctx = read_buffer ctx"


definition WriteBuffer :: "u8 list \<Rightarrow> 'o HLERequestContext \<Rightarrow> 'o HLERequestContext" where
  "WriteBuffer output ctx = ctx\<lparr>write_buffer := Some output\<rparr>"

text \<open>
  Modelled from the spec: \<^verbatim>\<open>IPC::ResponseBuilder rb{ctx, n, c, m}\<close> starts the response of
  the context and \<^verbatim>\<open>rb.Push\<close>, \<^verbatim>\<open>rb.PushIpcInterface\<close> append to it.
\<close>

definition ResponseBuilder ::
  "'o HLERequestContext \<Rightarrow> nat \<Rightarrow> nat \<Rightarrow> nat \<Rightarrow> 'o HLERequestContext" where
  "ResponseBuilder ctx n c m =
     ctx\<lparr>response := Some \<lparr>normal_params_size = n, num_handles_to_copy = c,
                             num_objects_to_move = m, pushed = []\<rparr>\<rparr>"

definition Push :: "'o rb_item \<Rightarrow> 'o HLERequestContext \<Rightarrow> 'o HLERequestContext" where
  "Push item ctx =
     ctx\<lparr>response := map_option (\<lambda>rb. rb\<lparr>pushed := pushed rb @ [item]\<rparr>) (response ctx)\<rparr>"

text \<open>
  Modelled from the spec: \<^verbatim>\<open>IPC::RequestParser\<close>. The parser is a cursor into the
  argument words; \<^verbatim>\<open>Pop<u32>\<close> reads one word, \<^verbatim>\<open>Pop<u64>\<close> two (least significant
  first), \<^verbatim>\<open>Pop<s64>\<close> is the same bits read as signed, and \<^verbatim>\<open>PopRaw<T>\<close> reads the
  words that hold an opaque \<^verbatim>\<open>T\<close>.
\<close>

type_synonym RequestParser = "(nat \<Rightarrow> u32) \<times> nat"

definition RequestParser :: "'o HLERequestContext \<Rightarrow> RequestParser" where
  "RequestParser ctx = (cmd_buf ctx, 0)"

definition Pop_u32 :: "RequestParser \<Rightarrow> u32 \<times> RequestParser" where
  "Pop_u32 rp = (fst rp (snd rp), (fst rp, Suc (snd rp)))"

definition Pop_u64 :: "RequestParser \<Rightarrow> u64 \<times> RequestParser" where
  "Pop_u64 rp =
     (let (lsw, rp) = Pop_u32 rp;
          (msw, rp) = Pop_u32 rp
      in (push_bit 32 (ucast msw) OR ucast lsw, rp))"

definition Pop_s64 :: "RequestParser \<Rightarrow> s64 \<times> RequestParser" where
  "Pop_s64 rp = Pop_u64 rp"

definition PopRaw :: "nat \<Rightarrow> RequestParser \<Rightarrow> u32 list \<times> RequestParser" where
  "PopRaw n rp = (map (fst rp) [snd rp ..< snd rp + n], (fst rp, snd rp + n))"

subsection \<open>The outside world and the calls made to it\<close>

text \<open>
  The backends are external. Their state is a value of an arbitrary type \<open>'w\<close>; every
  backend call of a handler goes through a wrapper that runs the backend's operation on
  that state and records the call, so that "the backend is not invoked" is a statement
  about the record.
\<close>

datatype Type = RomFS | SaveData | SDMC

datatype backend_call =
    Call_Storage_Read u64 u64
  | Call_Storage_Write u64 u64 bool "u8 list"
  | Call_Storage_Flush
  | Call_Storage_SetSize u64
  | Call_Directory_Read u64
  | Call_FileSystem_CreateFile "u8 list" u32
  | Call_FileSystem_OpenFile "u8 list" u32
  | Call_OpenFileSystem Type

record 'w sys =
  world :: 'w
  calls :: "backend_call list"

definition called :: "backend_call \<Rightarrow> 'w \<Rightarrow> 'w sys \<Rightarrow> 'w sys" where
  "called c w s = \<lparr>world = w, calls = calls s @ [c]\<rparr>"

text \<open>
  Writing through a raw pointer into a vector (\<^verbatim>\<open>output.data()\<close>, \<^verbatim>\<open>entries.data()\<close>,
  \<^verbatim>\<open>std::memcpy\<close>): the elements stored replace the front of the vector, and the vector
  keeps its size.
\<close>

definition store :: "'a list \<Rightarrow> 'a list \<Rightarrow> 'a list" where
  "store src dst = take (length dst) src @ drop (length src) dst"

text \<open>
  The abstract classes \<^verbatim>\<open>FileSys::StorageBackend\<close>, \<^verbatim>\<open>FileSys::DirectoryBackend\<close> and
  \<^verbatim>\<open>FileSys::FileSystemBackend\<close> are interfaces: a record of the operations the handlers
  call, each taking the handle \<^verbatim>\<open>backend\<close> points to and the state of the world. An
  operation that fills a caller's buffer returns the elements it stores there.
\<close>

record ('w, 'sb) StorageBackend =
  sb_Read :: "'sb \<Rightarrow> u64 \<Rightarrow> u64 \<Rightarrow> 'w \<Rightarrow> u64 ResultVal \<times> u8 list \<times> 'w"
  sb_Write :: "'sb \<Rightarrow> u64 \<Rightarrow> u64 \<Rightarrow> bool \<Rightarrow> u8 list \<Rightarrow> 'w \<Rightarrow> u64 ResultVal \<times> 'w"
  sb_Flush :: "'sb \<Rightarrow> 'w \<Rightarrow> bool \<times> 'w"
  sb_SetSize :: "'sb \<Rightarrow> u64 \<Rightarrow> 'w \<Rightarrow> bool \<times> 'w"



record ('w, 'fb, 'sb) FileSystemBackend =
  fb_CreateFile :: "'fb \<Rightarrow> u8 list \<Rightarrow> u32 \<Rightarrow> 'w \<Rightarrow> ResultCode \<times> 'w"
  fb_OpenFile :: "'fb \<Rightarrow> u8 list \<Rightarrow> u32 \<Rightarrow> 'w \<Rightarrow> 'sb ResultVal \<times> 'w"

type_synonym Path = "u8 list"

text \<open>
  \<^verbatim>\<open>OpenFileSystem(type, path)\<close> of \<^verbatim>\<open>core/hle/service/filesystem/filesystem.h\<close> opens
  the archive registered for a type; it is external as well.
\<close>

type_synonym ('w, 'fb) open_fs = "Type \<Rightarrow> Path \<Rightarrow> 'w \<Rightarrow> 'fb ResultVal \<times> 'w"

definition StorageBackend_Read ::
  "('w, 'sb) StorageBackend \<Rightarrow> 'sb \<Rightarrow> u64 \<Rightarrow> u64 \<Rightarrow> u8 list \<Rightarrow> 'w sys
     \<Rightarrow> u64 ResultVal \<times> u8 list \<times> 'w sys" where
  "StorageBackend_Read B backend offset len buffer s =
     (case sb_Read B backend offset len (world s) of
        (res, stored, w) \<Rightarrow> (res, store stored buffer, called (Call_Storage_Read offset len) w s))"

definition StorageBackend_Write ::
  "('w, 'sb) StorageBackend \<Rightarrow> 'sb \<Rightarrow> u64 \<Rightarrow> u64 \<Rightarrow> bool \<Rightarrow> u8 list \<Rightarrow> 'w sys
     \<Rightarrow> u64 ResultVal \<times> 'w sys" where
  "StorageBackend_Write B backend offset len flush buffer s =
     (case sb_Write B backend offset len flush buffer (world s) of
        (res, w) \<Rightarrow> (res, called (Call_Storage_Write offset len flush buffer) w s))"

definition StorageBackend_Flush ::
  "('w, 'sb) StorageBackend \<Rightarrow> 'sb \<Rightarrow> 'w sys \<Rightarrow> bool \<times> 'w sys" where
  "StorageBackend_Flush B backend s =
     (case sb_Flush B backend (world s) of (res, w) \<Rightarrow> (res, called Call_Storage_Flush w s))"

definition StorageBackend_SetSize ::
  "('w, 'sb) StorageBackend \<Rightarrow> 'sb \<Rightarrow> u64 \<Rightarrow> 'w sys \<Rightarrow> bool \<times> 'w sys" where
  "StorageBackend_SetSize B backend new_size s =
     (case sb_SetSize B backend new_size (world s) of
        (res, w) \<Rightarrow> (res, called (Call_Storage_SetSize new_size) w s))"


definition FileSystemBackend_CreateFile ::
  "('w, 'fb, 'sb) FileSystemBackend \<Rightarrow> 'fb \<Rightarrow> u8 list \<Rightarrow> u32 \<Rightarrow> 'w sys
     \<Rightarrow> ResultCode \<times> 'w sys" where
  "FileSystemBackend_CreateFile B backend name file_size s =
     (case fb_CreateFile B backend name file_size (world s) of
        (code, w) \<Rightarrow> (code, called (Call_FileSystem_CreateFile name file_size) w s))"

definition FileSystemBackend_OpenFile ::
  "('w, 'fb, 'sb) FileSystemBackend \<Rightarrow> 'fb \<Rightarrow> u8 list \<Rightarrow> u32 \<Rightarrow> 'w sys
     \<Rightarrow> 'sb ResultVal \<times> 'w sys" where
  "FileSystemBackend_OpenFile B backend name mode s =
     (case fb_OpenFile B backend name mode (world s) of
        (res, w) \<Rightarrow> (res, called (Call_FileSystem_OpenFile name mode) w s))"

definition OpenFileSystem ::
  "('w, 'fb) open_fs \<Rightarrow> Type \<Rightarrow> Path \<Rightarrow> 'w sys \<Rightarrow> 'fb ResultVal \<times> 'w sys" where
  "OpenFileSystem open_fs type path s =
     (case open_fs type path (world s) of
        (res, w) \<Rightarrow> (res, called (Call_OpenFileSystem type) w s))"

subsection \<open>Vectors of a length taken from the request\<close>

text \<open>
  \<^verbatim>\<open>std::vector<u8> output(length)\<close> in the two \<^verbatim>\<open>Read\<close> handlers asks the allocator for
  as many bytes as the guest named, the only check before it being \<^verbatim>\<open>length >= 0\<close>. The
  constructor gives \<open>n\<close> zero bytes, or throws (\<^verbatim>\<open>std::bad_alloc\<close>, \<^verbatim>\<open>std::length_error\<close>)
  when it cannot get them. What the allocator can provide is up to the runtime: it is the
  parameter \<open>can_allocate\<close> of these handlers. Nothing in a handler catches the exception,
  so it leaves the handler at once: the handler's result is \<^const>\<open>None\<close>, with no backend
  call made after it and no response built.
\<close>

definition vector_u8 :: "(nat \<Rightarrow> bool) \<Rightarrow> nat \<Rightarrow> u8 list option" where
  "vector_u8 can_allocate n = (if can_allocate n then Some (replicate n 0) else None)"

subsection \<open>\<^verbatim>\<open>IStorage\<close>\<close>

definition IStorage_Read ::
  "(nat \<Rightarrow> bool) \<Rightarrow> ('w, 'sb) StorageBackend \<Rightarrow> 'sb \<Rightarrow> 'o HLERequestContext \<Rightarrow> 'w sys
     \<Rightarrow> ('o HLERequestContext \<times> 'w sys) option" where
  "IStorage_Read can_allocate B backend ctx s =
     (let rp = RequestParser ctx;
          (offset, rp) = Pop_s64 rp;
          (length, rp) = Pop_s64 rp
      in if sint length < 0 then
           Some (Push (PushResult (ResultCode_of FS InvalidLength)) (ResponseBuilder ctx 2 0 0), s)
         else if sint offset < 0 then
           Some (Push (PushResult (ResultCode_of FS InvalidOffset)) (ResponseBuilder ctx 2 0 0), s)
         else
           (case vector_u8 can_allocate (unat length) of
              None \<Rightarrow> None
            | Some output \<Rightarrow>
                (let (res, output, s) = StorageBackend_Read B backend offset length output s
                 in (case res of
                       Inl code \<Rightarrow> Some (Push (PushResult code) (ResponseBuilder ctx 2 0 0), s)
                     | Inr n \<Rightarrow>
                         (let ctx = WriteBuffer output ctx
                          in Some (Push (PushResult RESULT_SUCCESS)
                                     (ResponseBuilder ctx 2 0 0), s))))))"

subsection \<open>\<^verbatim>\<open>IFile\<close>\<close>

definition IFile_Read ::
  "(nat \<Rightarrow> bool) \<Rightarrow> ('w, 'sb) StorageBackend \<Rightarrow> 'sb \<Rightarrow> 'o HLERequestContext \<Rightarrow> 'w sys
     \<Rightarrow> ('o HLERequestContext \<times> 'w sys) option" where
  "IFile_Read can_allocate B backend ctx s =
     (let rp = RequestParser ctx;
          (unk, rp) = Pop_u64 rp;
          (offset, rp) = Pop_s64 rp;
          (length, rp) = Pop_s64 rp
      in if sint length < 0 then
           Some (Push (PushResult (ResultCode_of FS InvalidLength)) (ResponseBuilder ctx 2 0 0), s)
         else if sint offset < 0 then
           Some (Push (PushResult (ResultCode_of FS InvalidOffset)) (ResponseBuilder ctx 2 0 0), s)
         else
           (case vector_u8 can_allocate (unat length) of
              None \<Rightarrow> None
            | Some output \<Rightarrow>
                (let (res, output, s) = StorageBackend_Read B backend offset length output s
                 in (case res of
                       Inl code \<Rightarrow> Some (Push (PushResult code) (ResponseBuilder ctx 2 0 0), s)
                     | Inr n \<Rightarrow>
                         (let ctx = WriteBuffer output ctx;
                              ctx = ResponseBuilder ctx 4 0 0;
                              ctx = Push (PushResult RESULT_SUCCESS) ctx
                          in Some (Push (PushU64 n) ctx, s))))))"

definition IFile_Write ::
  "('w, 'sb) StorageBackend \<Rightarrow> 'sb \<Rightarrow> 'o HLERequestContext \<Rightarrow> 'w sys
     \<Rightarrow> 'o HLERequestContext \<times> 'w sys" where
  "IFile_Write B backend ctx s =
     (let rp = RequestParser ctx;
          (unk, rp) = Pop_u64 rp;
          (offset, rp) = Pop_s64 rp;
          (length, rp) = Pop_s64 rp
      in if sint length < 0 then
           (Push (PushResult (ResultCode_of FS InvalidLength)) (ResponseBuilder ctx 2 0 0), s)
         else if sint offset < 0 then
           (Push (PushResult (ResultCode_of FS InvalidOffset)) (ResponseBuilder ctx 2 0 0), s)
         else
           let data = ReadBuffer ctx;
               (res, s) = StorageBackend_Write B backend offset length True data s
           in case res of
                Inl code \<Rightarrow> (Push (PushResult code) (ResponseBuilder ctx 2 0 0), s)
              | Inr n \<Rightarrow> (Push (PushResult RESULT_SUCCESS) (ResponseBuilder ctx 2 0 0), s))"

definition IFile_Flush ::
  "('w, 'sb) StorageBackend \<Rightarrow> 'sb \<Rightarrow> 'o HLERequestContext \<Rightarrow> 'w sys
     \<Rightarrow> 'o HLERequestContext \<times> 'w sys" where
  "IFile_Flush B backend ctx s =
     (let (flushed, s) = StorageBackend_Flush B backend s;
          ctx = ResponseBuilder ctx 2 0 0
      in (Push (PushResult RESULT_SUCCESS) ctx, s))"

definition IFile_SetSize ::
  "('w, 'sb) StorageBackend \<Rightarrow> 'sb \<Rightarrow> 'o HLERequestContext \<Rightarrow> 'w sys
     \<Rightarrow> 'o HLERequestContext \<times> 'w sys" where
  "IFile_SetSize B backend ctx s =
     (let rp = RequestParser ctx;
          (size, rp) = Pop_u64 rp;
          (resized, s) = StorageBackend_SetSize B backend size s;
          ctx = ResponseBuilder ctx 2 0 0
      in (Push (PushResult RESULT_SUCCESS) ctx, s))"

subsection \<open>\<^verbatim>\<open>IDirectory\<close>\<close>


subsection \<open>\<^verbatim>\<open>IFileSystem\<close>\<close>

text \<open>\<^verbatim>\<open>std::string name(file_buffer.begin(), std::find(..., '\0'))\<close>\<close>

definition path_name :: "u8 list \<Rightarrow> u8 list" where
  "path_name file_buffer = takeWhile (\<lambda>b. b \<noteq> 0) file_buffer"

definition IFileSystem_CreateFile ::
  "('w, 'fb, 'sb) FileSystemBackend \<Rightarrow> 'fb \<Rightarrow> 'o HLERequestContext \<Rightarrow> 'w sys
     \<Rightarrow> 'o HLERequestContext \<times> 'w sys" where
  "IFileSystem_CreateFile B backend ctx s =
     (let rp = RequestParser ctx;
          file_buffer = ReadBuffer ctx;
          name = path_name file_buffer;
          (mode, rp) = Pop_u64 rp;
          (size, rp) = Pop_u32 rp;
          ctx = ResponseBuilder ctx 2 0 0;
          (code, s) = FileSystemBackend_CreateFile B backend name size s
      in (Push (PushResult code) ctx, s))"

definition IFileSystem_OpenFile ::
  "('w, 'fb, 'sb) FileSystemBackend \<Rightarrow> 'fb \<Rightarrow> ('sb, 'db, 'fb) service_object HLERequestContext
     \<Rightarrow> 'w sys \<Rightarrow> ('sb, 'db, 'fb) service_object HLERequestContext \<times> 'w sys" where
  "IFileSystem_OpenFile B backend ctx s =
     (let rp = RequestParser ctx;
          file_buffer = ReadBuffer ctx;
          name = path_name file_buffer;
          (mode, rp) = Pop_u32 rp;
          (result, s) = FileSystemBackend_OpenFile B backend name mode s
      in case result of
           Inl code \<Rightarrow> (Push (PushResult code) (ResponseBuilder ctx 2 0 0), s)
         | Inr file \<Rightarrow>
             let ctx = ResponseBuilder ctx 2 0 1;
                 ctx = Push (PushResult RESULT_SUCCESS) ctx
             in (Push (PushIpcInterface (IFile file)) ctx, s))"

subsection \<open>\<^verbatim>\<open>FSP_SRV\<close>\<close>

record 'fb FSP_SRV =
  romfs :: "'fb option"

definition TryLoadRomFS ::
  "('w, 'fb) open_fs \<Rightarrow> 'fb FSP_SRV \<Rightarrow> 'w sys \<Rightarrow> 'fb FSP_SRV \<times> 'w sys" where
  "TryLoadRomFS open_fs srv s =
     (case romfs srv of
        Some fs \<Rightarrow> (srv, s)
      | None \<Rightarrow>
          let unused = [];
              (res, s) = OpenFileSystem open_fs RomFS unused s
          in (case res of
                Inr fs \<Rightarrow> (srv\<lparr>romfs := Some fs\<rparr>, s)
              | Inl code \<Rightarrow> (srv, s)))"

text \<open>
  \<^verbatim>\<open>MountSdCard\<close> and \<^verbatim>\<open>MountSaveData\<close> call \<^verbatim>\<open>Unwrap()\<close> on the result of
  \<^verbatim>\<open>OpenFileSystem\<close> without looking at \<^verbatim>\<open>Failed()\<close> first; \<^const>\<open>None\<close> is the handler
  stopped by the assertion, with no response written.
\<close>

definition MountSdCard ::
  "('w, 'fb) open_fs \<Rightarrow> ('sb, 'db, 'fb) service_object HLERequestContext \<Rightarrow> 'w sys
     \<Rightarrow> (('sb, 'db, 'fb) service_object HLERequestContext \<times> 'w sys) option" where
  "MountSdCard open_fs ctx s =
     (let unused = [];
          (res, s) = OpenFileSystem open_fs SDMC unused s
      in case Unwrap res of
           None \<Rightarrow> None
         | Some filesystem \<Rightarrow>
             let ctx = ResponseBuilder ctx 2 0 1;
                 ctx = Push (PushResult RESULT_SUCCESS) ctx
             in Some (Push (PushIpcInterface (IFileSystem filesystem)) ctx, s))"

definition MountSaveData ::
  "('w, 'fb) open_fs \<Rightarrow> ('sb, 'db, 'fb) service_object HLERequestContext \<Rightarrow> 'w sys
     \<Rightarrow> (('sb, 'db, 'fb) service_object HLERequestContext \<times> 'w sys) option" where
  "MountSaveData open_fs ctx s =
     (let unused = [];
          (res, s) = OpenFileSystem open_fs SaveData unused s
      in case Unwrap res of
           None \<Rightarrow> None
         | Some filesystem \<Rightarrow>
             let ctx = ResponseBuilder ctx 2 0 1;
                 ctx = Push (PushResult RESULT_SUCCESS) ctx
             in Some (Push (PushIpcInterface (IFileSystem filesystem)) ctx, s))"

text \<open>\<^verbatim>\<open>romfs->OpenFile({}, {})\<close>: the empty path and the zero mode.\<close>

definition OpenDataStorageByCurrentProcess ::
  "('w, 'fb, 'sb) FileSystemBackend \<Rightarrow> ('w, 'fb) open_fs \<Rightarrow> 'fb FSP_SRV
     \<Rightarrow> ('sb, 'db, 'fb) service_object HLERequestContext \<Rightarrow> 'w sys
     \<Rightarrow> 'fb FSP_SRV \<times> ('sb, 'db, 'fb) service_object HLERequestContext \<times> 'w sys" where
  "OpenDataStorageByCurrentProcess B open_fs srv ctx s =
     (let (srv, s) = TryLoadRomFS open_fs srv s
      in case romfs srv of
           None \<Rightarrow> (srv, Push (PushResult (ResultCode (- 1))) (ResponseBuilder ctx 2 0 0), s)
         | Some fs \<Rightarrow>
             let (storage, s) = FileSystemBackend_OpenFile B fs [] 0 s
             in (case storage of
                   Inl code \<Rightarrow> (srv, Push (PushResult code) (ResponseBuilder ctx 2 0 0), s)
                 | Inr st \<Rightarrow>
                     let ctx = ResponseBuilder ctx 2 0 1;
                         ctx = Push (PushResult RESULT_SUCCESS) ctx
                     in (srv, Push (PushIpcInterface (IStorage st)) ctx, s)))"

definition OpenRomStorage ::
  "('w, 'fb, 'sb) FileSystemBackend \<Rightarrow> ('w, 'fb) open_fs \<Rightarrow> 'fb FSP_SRV
     \<Rightarrow> ('sb, 'db, 'fb) service_object HLERequestContext \<Rightarrow> 'w sys
     \<Rightarrow> 'fb FSP_SRV \<times> ('sb, 'db, 'fb) service_object HLERequestContext \<times> 'w sys" where
  "OpenRomStorage B open_fs srv ctx s = OpenDataStorageByCurrentProcess B open_fs srv ctx s"

text \<open>
  \<^verbatim>\<open>CreateSaveData\<close> pops two arrays of 0x40 bytes (16 words each) and a \<^verbatim>\<open>u128\<close>
  (4 words).
\<close>

definition CreateSaveData ::
  "'o HLERequestContext \<Rightarrow> 'w sys \<Rightarrow> 'o HLERequestContext \<times> 'w sys" where
  "CreateSaveData ctx s =
     (let rp = RequestParser ctx;
          (save_struct, rp) = PopRaw 16 rp;
          (save_create_struct, rp) = PopRaw 16 rp;
          (uid, rp) = PopRaw 4 rp;
          ctx = ResponseBuilder ctx 2 0 0;
          ctx = Push (PushResult RESULT_SUCCESS) ctx
      in (ctx, s))"

subsection \<open>Sequences of commands on one \<^verbatim>\<open>FSP_SRV\<close>\<close>

text \<open>
  A run of the two commands that share the romfs cache (ids 200 and 203 of the table in
  the constructor) on one \<^verbatim>\<open>FSP_SRV\<close> instance, each with its own request context.
\<close>

datatype rom_command = Cmd_OpenDataStorageByCurrentProcess | Cmd_OpenRomStorage

definition rom_handler ::
  "rom_command \<Rightarrow> ('w, 'fb, 'sb) FileSystemBackend \<Rightarrow> ('w, 'fb) open_fs \<Rightarrow> 'fb FSP_SRV
     \<Rightarrow> ('sb, 'db, 'fb) service_object HLERequestContext \<Rightarrow> 'w sys
     \<Rightarrow> 'fb FSP_SRV \<times> ('sb, 'db, 'fb) service_object HLERequestContext \<times> 'w sys" where
  "rom_handler c =
     (case c of
        Cmd_OpenDataStorageByCurrentProcess \<Rightarrow> OpenDataStorageByCurrentProcess
      | Cmd_OpenRomStorage \<Rightarrow> OpenRomStorage)"

fun run_rom_commands ::
  "('w, 'fb, 'sb) FileSystemBackend \<Rightarrow> ('w, 'fb) open_fs
     \<Rightarrow> (rom_command \<times> ('sb, 'db, 'fb) service_object HLERequestContext) list
     \<Rightarrow> 'fb FSP_SRV \<Rightarrow> 'w sys \<Rightarrow> 'fb FSP_SRV \<times> 'w sys" where
  "run_rom_commands B open_fs [] srv s = (srv, s)"
| "run_rom_commands B open_fs (r # rs) srv s =
     (case rom_handler (fst r) B open_fs srv (snd r) s of
        (srv, ctx, s) \<Rightarrow> run_rom_commands B open_fs rs srv s)"

text \<open>The calls of a record that open an archive.\<close>

fun is_OpenFileSystem :: "backend_call \<Rightarrow> bool" where
  "is_OpenFileSystem (Call_OpenFileSystem type) = True"
| "is_OpenFileSystem c = False"

definition archive_opens :: "'w sys \<Rightarrow> nat" where
  "archive_opens s = length (filter is_OpenFileSystem (calls s))"

subsection \<open>Vocabulary of the statements\<close>

text \<open>The response of two parameter words that holds a status and nothing else.\<close>

definition status_only :: "ResultCode \<Rightarrow> 'o ResponseBuilder" where
  "status_only code =
     \<lparr>normal_params_size = 2, num_handles_to_copy = 0, num_objects_to_move = 0,
      pushed = [PushResult code]\<rparr>"

text \<open>
  A request turned down: the response holds only the error status of the filesystem
  module, nothing was written to the output buffer, and neither the record of backend
  calls nor the world has changed.
\<close>

definition rejected_with ::
  "ErrorDescription \<Rightarrow> 'o HLERequestContext \<Rightarrow> 'w sys \<Rightarrow> 'o HLERequestContext \<times> 'w sys \<Rightarrow> bool" where
  "rejected_with d ctx s r \<longleftrightarrow>
     response (fst r) = Some (status_only (ResultCode_of FS d))
     \<and> write_buffer (fst r) = write_buffer ctx
     \<and> snd r = s"

text \<open>
  A handler that can be left by an exception returned, and what it returned satisfies
  \<open>P\<close>.
\<close>

definition returns :: "('a \<Rightarrow> bool) \<Rightarrow> 'a option \<Rightarrow> bool" where
  "returns P r = (case r of None \<Rightarrow> False | Some x \<Rightarrow> P x)"

text \<open>A request as it reaches a handler: nothing written, no response yet.\<close>

definition request :: "(nat \<Rightarrow> u32) \<Rightarrow> u8 list \<Rightarrow> u64 \<Rightarrow> 'o HLERequestContext" where
  "request args input capacity =
     \<lparr>cmd_buf = args, read_buffer = input, write_buffer_size = capacity,
      write_buffer = None, response = None\<rparr>"

definition no_args :: "nat \<Rightarrow> u32" where
  "no_args i = 0"

definition fresh :: "'w \<Rightarrow> 'w sys" where
  "fresh w = \<lparr>world = w, calls = []\<rparr>"

subsection \<open>Test backends\<close>

text \<open>An allocator that provides a vector of up to \<open>limit\<close> bytes.\<close>

definition heap_of :: "nat \<Rightarrow> nat \<Rightarrow> bool" where
  "heap_of limit n \<longleftrightarrow> n \<le> limit"

text \<open>
  Small backends to run the handlers on. A read-only file held in memory: the world is
  the bytes of the file, a read gives the bytes available from the offset, at most as
  many as asked for, and reports how many they are.
\<close>

definition memory_file :: "(u8 list, unit) StorageBackend" where
  "memory_file =
     \<lparr>sb_Read = (\<lambda>h offset len w.
        (Inr (of_nat (min (unat len) (length w - unat offset))),
         take (unat len) (drop (unat offset) w), w)),
      sb_Write = (\<lambda>h offset len flush data w. (Inl (ResultCode 1), w)),
      sb_Flush = (\<lambda>h w. (True, w)),
      sb_SetSize = (\<lambda>h new_size w. (False, w))\<rparr>"


text \<open>
  A filesystem whose world is the list of the paths that exist; the handle of an open
  file is its path.
\<close>

definition path_list :: "(u8 list list, unit, u8 list) FileSystemBackend" where
  "path_list =
     \<lparr>fb_CreateFile = (\<lambda>h name file_size w. (RESULT_SUCCESS, name # w)),
      fb_OpenFile = (\<lambda>h name mode w.
        (if name \<in> set w then Inr name else Inl (ResultCode 1), w))\<rparr>"

text \<open>An \<^verbatim>\<open>OpenFileSystem\<close> that knows the archive types of a list and no other.\<close>

definition registered :: "Type list \<Rightarrow> ('w, unit) open_fs" where
  "registered types type path w =
     (if type \<in> set types then Inr () else Inl (ResultCode (- 1)), w)"

section \<open>Properties\<close>

subsection \<open>Auxiliary facts\<close>

lemma Pop_u64_eval:
  "Pop_u64 (buf, i) =
     (push_bit 32 (ucast (buf (Suc i))) OR ucast (buf i), (buf, Suc (Suc i)))"
  by (simp add: Pop_u64_def Pop_u32_def)

lemma response_Push_ResponseBuilder:
  "response (Push item (ResponseBuilder ctx n c m)) =
     Some \<lparr>normal_params_size = n, num_handles_to_copy = c, num_objects_to_move = m, pushed = [item]\<rparr>"
  by (simp add: Push_def ResponseBuilder_def)

lemma response_Push_Push_ResponseBuilder:
  "response (Push item2 (Push item1 (ResponseBuilder ctx n c m))) =
     Some \<lparr>normal_params_size = n, num_handles_to_copy = c, num_objects_to_move = m, pushed = [item1, item2]\<rparr>"
  by (simp add: Push_def ResponseBuilder_def)

lemma write_buffer_Push [simp]: "write_buffer (Push item ctx) = write_buffer ctx"
  by (simp add: Push_def)

lemma write_buffer_ResponseBuilder [simp]: "write_buffer (ResponseBuilder ctx n c m) = write_buffer ctx"
  by (simp add: ResponseBuilder_def)

lemma write_buffer_WriteBuffer [simp]: "write_buffer (WriteBuffer output ctx) = Some output"
  by (simp add: WriteBuffer_def)

lemma length_store [simp]: "length (store src dst) = length dst"
  by (simp add: store_def)

lemma rejected_withI:
  "r = (Push (PushResult (ResultCode_of FS d)) (ResponseBuilder ctx 2 0 0), s) \<Longrightarrow> rejected_with d ctx s r"
  by (simp add: rejected_with_def response_Push_ResponseBuilder status_only_def)

lemma IStorage_Read_invalid_length:
  assumes "Pop_s64 (RequestParser ctx) = (offset, rp)" "Pop_s64 rp = (len, rp')" "sint len < 0"
  shows "IStorage_Read can_allocate B backend ctx s =
           Some (Push (PushResult (ResultCode_of FS InvalidLength)) (ResponseBuilder ctx 2 0 0), s)"
  using assms by (simp add: IStorage_Read_def)

lemma IStorage_Read_invalid_offset:
  assumes "Pop_s64 (RequestParser ctx) = (offset, rp)" "Pop_s64 rp = (len, rp')"
    "0 \<le> sint len" "sint offset < 0"
  shows "IStorage_Read can_allocate B backend ctx s =
           Some (Push (PushResult (ResultCode_of FS InvalidOffset)) (ResponseBuilder ctx 2 0 0), s)"
  using assms by (simp add: IStorage_Read_def)

lemma IFile_Read_invalid_length:
  assumes "Pop_u64 (RequestParser ctx) = (unk, rp0)" "Pop_s64 rp0 = (offset, rp)"
    "Pop_s64 rp = (len, rp')" "sint len < 0"
  shows "IFile_Read can_allocate B backend ctx s =
           Some (Push (PushResult (ResultCode_of FS InvalidLength)) (ResponseBuilder ctx 2 0 0), s)"
  using assms by (simp add: IFile_Read_def)

lemma IFile_Read_invalid_offset:
  assumes "Pop_u64 (RequestParser ctx) = (unk, rp0)" "Pop_s64 rp0 = (offset, rp)"
    "Pop_s64 rp = (len, rp')" "0 \<le> sint len" "sint offset < 0"
  shows "IFile_Read can_allocate B backend ctx s =
           Some (Push (PushResult (ResultCode_of FS InvalidOffset)) (ResponseBuilder ctx 2 0 0), s)"
  using assms by (simp add: IFile_Read_def)

lemma returns_rejected_withI:
  "r = Some (Push (PushResult (ResultCode_of FS d)) (ResponseBuilder ctx 2 0 0), s) \<Longrightarrow>
     returns (rejected_with d ctx s) r"
  by (simp add: returns_def rejected_withI)

lemma IFile_Write_invalid_length:
  assumes "Pop_u64 (RequestParser ctx) = (unk, rp0)" "Pop_s64 rp0 = (offset, rp)"
    "Pop_s64 rp = (len, rp')" "sint len < 0"
  shows "IFile_Write B backend ctx s =
           (Push (PushResult (ResultCode_of FS InvalidLength)) (ResponseBuilder ctx 2 0 0), s)"
  using assms by (simp add: IFile_Write_def)

lemma IFile_Write_invalid_offset:
  assumes "Pop_u64 (RequestParser ctx) = (unk, rp0)" "Pop_s64 rp0 = (offset, rp)"
    "Pop_s64 rp = (len, rp')" "0 \<le> sint len" "sint offset < 0"
  shows "IFile_Write B backend ctx s =
           (Push (PushResult (ResultCode_of FS InvalidOffset)) (ResponseBuilder ctx 2 0 0), s)"
  using assms by (simp add: IFile_Write_def)

lemma archive_opens_called:
  "archive_opens (called c w s) = archive_opens s + (if is_OpenFileSystem c then 1 else 0)"
  by (simp add: archive_opens_def called_def)

lemma TryLoadRomFS_loaded:
  "romfs srv = Some fs \<Longrightarrow> TryLoadRomFS open_fs srv s = (srv, s)"
  by (simp add: TryLoadRomFS_def)

lemma TryLoadRomFS_unloaded:
  assumes "romfs srv = None"
  shows "TryLoadRomFS open_fs srv s =
           (case fst (open_fs RomFS [] (world s)) of
              Inl code \<Rightarrow> srv
            | Inr fs \<Rightarrow> srv\<lparr>romfs := Some fs\<rparr>,
            called (Call_OpenFileSystem RomFS) (snd (open_fs RomFS [] (world s))) s)"
  using assms
  by (simp add: TryLoadRomFS_def OpenFileSystem_def split_beta Let_def split: sum.splits)

lemma OpenDataStorageByCurrentProcess_loaded:
  assumes "romfs srv = Some fs"
  shows "fst (OpenDataStorageByCurrentProcess B open_fs srv ctx s) = srv"
    and "snd (snd (OpenDataStorageByCurrentProcess B open_fs srv ctx s)) =
           called (Call_FileSystem_OpenFile [] 0) (snd (fb_OpenFile B fs [] 0 (world s))) s"
  using assms
  by (simp_all add: OpenDataStorageByCurrentProcess_def TryLoadRomFS_loaded
      FileSystemBackend_OpenFile_def split_beta Let_def split: sum.splits)

lemma OpenDataStorageByCurrentProcess_unloaded:
  assumes "romfs srv = None"
  shows "romfs (fst (OpenDataStorageByCurrentProcess B open_fs srv ctx s)) =
           (case fst (open_fs RomFS [] (world s)) of Inl code \<Rightarrow> None | Inr fs \<Rightarrow> Some fs)"
    and "archive_opens (snd (snd (OpenDataStorageByCurrentProcess B open_fs srv ctx s))) =
           archive_opens s + 1"
  using assms
  by (simp_all add: OpenDataStorageByCurrentProcess_def TryLoadRomFS_unloaded
      FileSystemBackend_OpenFile_def archive_opens_called split_beta Let_def
      split: sum.splits)

lemma rom_handler_eq: "rom_handler c = OpenDataStorageByCurrentProcess"
  by (cases c) (auto simp: rom_handler_def OpenRomStorage_def fun_eq_iff)

lemma run_loaded:
  "romfs srv = Some fs \<Longrightarrow>
     fst (run_rom_commands B open_fs rs srv s) = srv
     \<and> archive_opens (snd (run_rom_commands B open_fs rs srv s)) = archive_opens s"
proof (induction rs arbitrary: s)
  case Nil
  then show ?case by simp
next
  case (Cons r rs)
  obtain srv' ctx' s' where step:
    "OpenDataStorageByCurrentProcess B open_fs srv (snd r) s = (srv', ctx', s')"
    by (cases "OpenDataStorageByCurrentProcess B open_fs srv (snd r) s")
  from OpenDataStorageByCurrentProcess_loaded [OF Cons.prems, of B open_fs "snd r" s] step
  have "srv' = srv" and "archive_opens s' = archive_opens s"
    by (simp_all add: archive_opens_called)
  with Cons.IH [OF Cons.prems, of s'] step show ?case
    by (simp add: rom_handler_eq)
qed

lemma run_failing:
  "romfs srv = None \<Longrightarrow> \<forall>w. isl (fst (open_fs RomFS [] w)) \<Longrightarrow>
     romfs (fst (run_rom_commands B open_fs rs srv s)) = None
     \<and> archive_opens (snd (run_rom_commands B open_fs rs srv s)) = archive_opens s + length rs"
proof (induction rs arbitrary: srv s)
  case Nil
  then show ?case by simp
next
  case (Cons r rs)
  obtain srv' ctx' s' where step:
    "OpenDataStorageByCurrentProcess B open_fs srv (snd r) s = (srv', ctx', s')"
    by (cases "OpenDataStorageByCurrentProcess B open_fs srv (snd r) s")
  from Cons.prems(2) obtain code where "fst (open_fs RomFS [] (world s)) = Inl code"
    by (metis isl_def)
  with OpenDataStorageByCurrentProcess_unloaded [OF Cons.prems(1), of B open_fs "snd r" s] step
  have "romfs srv' = None" and "archive_opens s' = archive_opens s + 1"
    by simp_all
  with Cons.IH [OF _ Cons.prems(2), of srv' s'] step show ?case
    by (simp add: rom_handler_eq)
qed

text \<open>
  C1. The romfs cache of one \<^verbatim>\<open>FSP_SRV\<close> instance under any sequence of
  \<^verbatim>\<open>OpenDataStorageByCurrentProcess\<close> and \<^verbatim>\<open>OpenRomStorage\<close> calls.
  \<^item> Once the cache is loaded, the instance is never changed again and no call opens an
    archive; each call makes one backend call, \<^verbatim>\<open>OpenFile\<close> on the cached filesystem.
  \<^item> A call that finds the cache unloaded opens the archive exactly once; the cache
    is loaded with the filesystem returned if the open succeeded and stays unloaded if it
    failed.
  \<^item> So a sequence whose first open succeeds opens the archive once in all.
  \<^item> Where the open keeps failing, the cache stays unloaded and every call of the
    sequence tries the open again.
\<close>

theorem romfs_cache_opened_once:
  "(romfs srv = Some fs \<longrightarrow>
      fst (run_rom_commands B open_fs rs srv s) = srv
      \<and> archive_opens (snd (run_rom_commands B open_fs rs srv s)) = archive_opens s
      \<and> snd (snd (rom_handler c B open_fs srv ctx s)) =
          \<lparr>world = snd (fb_OpenFile B fs [] 0 (world s)),
           calls = calls s @ [Call_FileSystem_OpenFile [] 0]\<rparr>)
   \<and> (romfs srv = None \<longrightarrow>
      archive_opens (snd (snd (rom_handler c B open_fs srv ctx s))) = archive_opens s + 1
      \<and> romfs (fst (rom_handler c B open_fs srv ctx s)) =
          (case fst (open_fs RomFS [] (world s)) of Inl code \<Rightarrow> None | Inr fs' \<Rightarrow> Some fs'))
   \<and> (romfs srv = None \<and> fst (open_fs RomFS [] (world s)) = Inr fs \<longrightarrow>
      romfs (fst (run_rom_commands B open_fs ((c, ctx) # rs) srv s)) = Some fs
      \<and> archive_opens (snd (run_rom_commands B open_fs ((c, ctx) # rs) srv s)) =
          archive_opens s + 1)
   \<and> (romfs srv = None \<and> (\<forall>w. isl (fst (open_fs RomFS [] w))) \<longrightarrow>
      romfs (fst (run_rom_commands B open_fs rs srv s)) = None
      \<and> archive_opens (snd (run_rom_commands B open_fs rs srv s)) =
          archive_opens s + length rs)"
proof (intro conjI impI)
  assume "romfs srv = Some fs"
  then show "fst (run_rom_commands B open_fs rs srv s) = srv"
    and "archive_opens (snd (run_rom_commands B open_fs rs srv s)) = archive_opens s"
    and "snd (snd (rom_handler c B open_fs srv ctx s)) =
          \<lparr>world = snd (fb_OpenFile B fs [] 0 (world s)),
           calls = calls s @ [Call_FileSystem_OpenFile [] 0]\<rparr>"
    by (simp_all add: run_loaded rom_handler_eq OpenDataStorageByCurrentProcess_loaded called_def)
next
  assume "romfs srv = None"
  then show "archive_opens (snd (snd (rom_handler c B open_fs srv ctx s))) = archive_opens s + 1"
    and "romfs (fst (rom_handler c B open_fs srv ctx s)) =
          (case fst (open_fs RomFS [] (world s)) of Inl code \<Rightarrow> None | Inr fs' \<Rightarrow> Some fs')"
    by (simp_all add: rom_handler_eq OpenDataStorageByCurrentProcess_unloaded)
next
  assume a: "romfs srv = None \<and> fst (open_fs RomFS [] (world s)) = Inr fs"
  obtain srv' ctx' s' where step:
    "OpenDataStorageByCurrentProcess B open_fs srv ctx s = (srv', ctx', s')"
    by (cases "OpenDataStorageByCurrentProcess B open_fs srv ctx s")
  from a OpenDataStorageByCurrentProcess_unloaded [of srv B open_fs ctx s] step
  have s': "romfs srv' = Some fs" "archive_opens s' = archive_opens s + 1"
    by simp_all
  from run_loaded [OF s'(1), of B open_fs rs s'] s' step
  show "romfs (fst (run_rom_commands B open_fs ((c, ctx) # rs) srv s)) = Some fs"
    and "archive_opens (snd (run_rom_commands B open_fs ((c, ctx) # rs) srv s)) =
          archive_opens s + 1"
    by (simp_all add: rom_handler_eq)
next
  assume "romfs srv = None \<and> (\<forall>w. isl (fst (open_fs RomFS [] w)))"
  then show "romfs (fst (run_rom_commands B open_fs rs srv s)) = None"
    and "archive_opens (snd (run_rom_commands B open_fs rs srv s)) =
          archive_opens s + length rs"
    by (simp_all add: run_failing)
qed


text \<open>
  The theorem on two calls in a row: from an unloaded cache where the archive opens (one
  open), from a loaded cache (no open), and where no romfs archive is registered (two
  opens, cache still unloaded).
\<close>

theorem romfs_cache_opened_once_witness:
  "romfs (fst (run_rom_commands path_list (registered [RomFS])
       [(Cmd_OpenDataStorageByCurrentProcess,
         request no_args [] 0 :: (u8 list, unit, unit) service_object HLERequestContext),
        (Cmd_OpenRomStorage, request no_args [] 0)]
       \<lparr>romfs = None\<rparr> (fresh [[]]))) = Some ()
   \<and> archive_opens (snd (run_rom_commands path_list (registered [RomFS])
       [(Cmd_OpenDataStorageByCurrentProcess,
         request no_args [] 0 :: (u8 list, unit, unit) service_object HLERequestContext),
        (Cmd_OpenRomStorage, request no_args [] 0)]
       \<lparr>romfs = None\<rparr> (fresh [[]]))) = 1
   \<and> fst (run_rom_commands path_list (registered [RomFS])
       [(Cmd_OpenDataStorageByCurrentProcess,
         request no_args [] 0 :: (u8 list, unit, unit) service_object HLERequestContext),
        (Cmd_OpenRomStorage, request no_args [] 0)]
       \<lparr>romfs = Some ()\<rparr> (fresh [[]])) = \<lparr>romfs = Some ()\<rparr>
   \<and> archive_opens (snd (run_rom_commands path_list (registered [RomFS])
       [(Cmd_OpenDataStorageByCurrentProcess,
         request no_args [] 0 :: (u8 list, unit, unit) service_object HLERequestContext),
        (Cmd_OpenRomStorage, request no_args [] 0)]
       \<lparr>romfs = Some ()\<rparr> (fresh [[]]))) = 0
   \<and> romfs (fst (run_rom_commands path_list (registered [SDMC])
       [(Cmd_OpenDataStorageByCurrentProcess,
         request no_args [] 0 :: (u8 list, unit, unit) service_object HLERequestContext),
        (Cmd_OpenRomStorage, request no_args [] 0)]
       \<lparr>romfs = None\<rparr> (fresh [[]]))) = None
   \<and> archive_opens (snd (run_rom_commands path_list (registered [SDMC])
       [(Cmd_OpenDataStorageByCurrentProcess,
         request no_args [] 0 :: (u8 list, unit, unit) service_object HLERequestContext),
        (Cmd_OpenRomStorage, request no_args [] 0)]
       \<lparr>romfs = None\<rparr> (fresh [[]]))) = 2"
proof -
  let ?r = "request no_args [] 0 :: (u8 list, unit, unit) service_object HLERequestContext"
  let ?rs = "[(Cmd_OpenDataStorageByCurrentProcess, ?r), (Cmd_OpenRomStorage, ?r)]"
  have zero: "archive_opens (fresh [[]] :: u8 list list sys) = 0"
    by (simp add: archive_opens_def fresh_def)
  have ok: "fst (registered [RomFS] RomFS [] (world (fresh [[]] :: u8 list list sys))) = Inr ()"
    by (simp add: registered_def)
  have fails: "\<forall>w :: u8 list list. isl (fst (registered [SDMC] RomFS [] w))"
    by (simp add: registered_def)
  have unloaded: "romfs \<lparr>romfs = None :: unit option\<rparr> = None"
    and loaded: "romfs \<lparr>romfs = Some ()\<rparr> = Some ()"
    by simp_all
  note first = romfs_cache_opened_once [where srv = "\<lparr>romfs = None\<rparr>" and fs = "()"
      and B = path_list and open_fs = "registered [RomFS]" and s = "fresh [[]]"
      and c = Cmd_OpenDataStorageByCurrentProcess and ctx = ?r
      and rs = "[(Cmd_OpenRomStorage, ?r)]"]
  note later = romfs_cache_opened_once [where srv = "\<lparr>romfs = Some ()\<rparr>" and fs = "()"
      and B = path_list and open_fs = "registered [RomFS]" and s = "fresh [[]]"
      and c = Cmd_OpenDataStorageByCurrentProcess and ctx = ?r and rs = ?rs]
  note retry = romfs_cache_opened_once [where srv = "\<lparr>romfs = None\<rparr>" and fs = "()"
      and B = path_list and open_fs = "registered [SDMC]" and s = "fresh [[]]"
      and c = Cmd_OpenDataStorageByCurrentProcess and ctx = ?r and rs = ?rs]
  from first unloaded ok zero
  have "romfs (fst (run_rom_commands path_list (registered [RomFS]) ?rs \<lparr>romfs = None\<rparr>
          (fresh [[]]))) = Some ()"
    and "archive_opens (snd (run_rom_commands path_list (registered [RomFS]) ?rs
          \<lparr>romfs = None\<rparr> (fresh [[]]))) = 1"
    by simp_all
  moreover from later loaded zero
  have "fst (run_rom_commands path_list (registered [RomFS]) ?rs \<lparr>romfs = Some ()\<rparr>
          (fresh [[]])) = \<lparr>romfs = Some ()\<rparr>"
    and "archive_opens (snd (run_rom_commands path_list (registered [RomFS]) ?rs
          \<lparr>romfs = Some ()\<rparr> (fresh [[]]))) = 0"
    by simp_all
  moreover from retry unloaded fails zero
  have "romfs (fst (run_rom_commands path_list (registered [SDMC]) ?rs \<lparr>romfs = None\<rparr>
          (fresh [[]]))) = None"
    and "archive_opens (snd (run_rom_commands path_list (registered [SDMC]) ?rs
          \<lparr>romfs = None\<rparr> (fresh [[]]))) = 2"
    by simp_all
  ultimately show ?thesis
    by simp
qed

text \<open>
  C5. Storage Read, File Read and File Write: with \<^verbatim>\<open>length < 0\<close> the status is
  \<^verbatim>\<open>InvalidLength\<close>; with \<^verbatim>\<open>length >= 0\<close> and \<^verbatim>\<open>offset < 0\<close> it is \<^verbatim>\<open>InvalidOffset\<close>. In
  both cases the backend is not called and no output is written. The arguments are the
  values the handler pops: offset and length for Storage Read, an unused word first for
  the two file commands. Both tests come before the output vector is allocated, so the
  two reads return whatever the allocator can provide.
\<close>

theorem negative_length_or_offset_rejected:
  assumes "Pop_s64 (RequestParser sctx) = (soffset, srp)" and "Pop_s64 srp = (slen, srp')"
    and "Pop_u64 (RequestParser fctx) = (unk, frp0)" and "Pop_s64 frp0 = (foffset, frp)"
    and "Pop_s64 frp = (flen, frp')"
  shows "(sint slen < 0 \<longrightarrow>
            returns (rejected_with InvalidLength sctx s)
              (IStorage_Read can_allocate B backend sctx s))
       \<and> (0 \<le> sint slen \<and> sint soffset < 0 \<longrightarrow>
            returns (rejected_with InvalidOffset sctx s)
              (IStorage_Read can_allocate B backend sctx s))
       \<and> (sint flen < 0 \<longrightarrow>
            returns (rejected_with InvalidLength fctx s)
              (IFile_Read can_allocate B backend fctx s)
            \<and> rejected_with InvalidLength fctx s (IFile_Write B backend fctx s))
       \<and> (0 \<le> sint flen \<and> sint foffset < 0 \<longrightarrow>
            returns (rejected_with InvalidOffset fctx s)
              (IFile_Read can_allocate B backend fctx s)
            \<and> rejected_with InvalidOffset fctx s (IFile_Write B backend fctx s))"
  using assms
  by (auto intro!: rejected_withI returns_rejected_withI
      simp: IStorage_Read_invalid_length IStorage_Read_invalid_offset
        IFile_Read_invalid_length IFile_Read_invalid_offset
        IFile_Write_invalid_length IFile_Write_invalid_offset)

lemma Pop_s64_request:
  "Pop_s64 (args, i) = (push_bit 32 (ucast (args (Suc i))) OR ucast (args i), (args, Suc (Suc i)))"
  by (simp add: Pop_s64_def Pop_u64_eval)

lemma RequestParser_request: "RequestParser (request args input capacity) = (args, 0)"
  by (simp add: RequestParser_def request_def)

text \<open>The theorem at a length of -1 and at an offset of -1 with length 1.\<close>

theorem negative_length_or_offset_rejected_witness:
  "sint (- 1 :: s64) < 0
   \<and> returns
       (rejected_with InvalidLength
          (request (no_args(2 := 0xFFFFFFFF, 3 := 0xFFFFFFFF)) [] 0 :: unit HLERequestContext)
          (fresh [1, 2, 3, 4]))
       (IStorage_Read (heap_of 4096) memory_file ()
          (request (no_args(2 := 0xFFFFFFFF, 3 := 0xFFFFFFFF)) [] 0) (fresh [1, 2, 3, 4]))
   \<and> rejected_with InvalidLength
       (request (no_args(4 := 0xFFFFFFFF, 5 := 0xFFFFFFFF)) [5] 0 :: unit HLERequestContext)
       (fresh [1, 2, 3, 4])
       (IFile_Write memory_file ()
          (request (no_args(4 := 0xFFFFFFFF, 5 := 0xFFFFFFFF)) [5] 0) (fresh [1, 2, 3, 4]))
   \<and> 0 \<le> sint (1 :: s64)
   \<and> returns
       (rejected_with InvalidOffset
          (request (no_args(0 := 0xFFFFFFFF, 1 := 0xFFFFFFFF, 2 := 1)) [] 0
             :: unit HLERequestContext)
          (fresh [1, 2, 3, 4]))
       (IStorage_Read (heap_of 4096) memory_file ()
          (request (no_args(0 := 0xFFFFFFFF, 1 := 0xFFFFFFFF, 2 := 1)) [] 0)
          (fresh [1, 2, 3, 4]))
   \<and> returns
       (rejected_with InvalidOffset
          (request (no_args(2 := 0xFFFFFFFF, 3 := 0xFFFFFFFF, 4 := 1)) [5] 0
             :: unit HLERequestContext)
          (fresh [1, 2, 3, 4]))
       (IFile_Read (heap_of 4096) memory_file ()
          (request (no_args(2 := 0xFFFFFFFF, 3 := 0xFFFFFFFF, 4 := 1)) [5] 0)
          (fresh [1, 2, 3, 4]))"
proof -
  let ?a = "no_args(2 := 0xFFFFFFFF, 3 := 0xFFFFFFFF)"
  let ?b = "no_args(4 := 0xFFFFFFFF, 5 := 0xFFFFFFFF)"
  let ?c = "no_args(0 := 0xFFFFFFFF, 1 := 0xFFFFFFFF, 2 := 1)"
  let ?d = "no_args(2 := 0xFFFFFFFF, 3 := 0xFFFFFFFF, 4 := 1)"
  have a: "Pop_s64 (RequestParser (request ?a [] 0 :: unit HLERequestContext)) = (0, (?a, 2))"
    "Pop_s64 (?a, 2) = (- 1, (?a, 4))"
    by (simp_all add: RequestParser_request Pop_s64_request no_args_def)
  have b: "Pop_u64 (RequestParser (request ?b [5] 0 :: unit HLERequestContext)) = (0, (?b, 2))"
    "Pop_s64 (?b, 2) = (0, (?b, 4))" "Pop_s64 (?b, 4) = (- 1, (?b, 6))"
    by (simp_all add: RequestParser_request Pop_s64_request Pop_u64_eval no_args_def
        fun_upd_def)
  have c: "Pop_s64 (RequestParser (request ?c [] 0 :: unit HLERequestContext)) = (- 1, (?c, 2))"
    "Pop_s64 (?c, 2) = (1, (?c, 4))"
    by (simp_all add: RequestParser_request Pop_s64_request no_args_def)
  have d: "Pop_u64 (RequestParser (request ?d [5] 0 :: unit HLERequestContext)) = (0, (?d, 2))"
    "Pop_s64 (?d, 2) = (- 1, (?d, 4))" "Pop_s64 (?d, 4) = (1, (?d, 6))"
    by (simp_all add: RequestParser_request Pop_s64_request Pop_u64_eval no_args_def
        fun_upd_def)
  show ?thesis
    using negative_length_or_offset_rejected
        [where B = memory_file and backend = "()" and s = "fresh [1, 2, 3, 4]"
           and can_allocate = "heap_of 4096", OF a b]
      negative_length_or_offset_rejected
        [where B = memory_file and backend = "()" and s = "fresh [1, 2, 3, 4]"
           and can_allocate = "heap_of 4096", OF c d]
    by simp
qed

lemma IStorage_Read_ok:
  assumes "Pop_s64 (RequestParser ctx) = (offset, rp)" "Pop_s64 rp = (len, rp')"
    "0 \<le> sint len" "0 \<le> sint offset" "can_allocate (unat len)"
    "sb_Read B backend offset len (world s) = (Inr n, stored, w)"
  shows "IStorage_Read can_allocate B backend ctx s =
           Some (Push (PushResult RESULT_SUCCESS)
                   (ResponseBuilder (WriteBuffer (store stored (replicate (unat len) 0)) ctx) 2 0 0),
                 called (Call_Storage_Read offset len) w s)"
  using assms by (simp add: IStorage_Read_def StorageBackend_Read_def vector_u8_def)

lemma IFile_Read_ok:
  assumes "Pop_u64 (RequestParser ctx) = (unk, rp0)" "Pop_s64 rp0 = (offset, rp)"
    "Pop_s64 rp = (len, rp')" "0 \<le> sint len" "0 \<le> sint offset" "can_allocate (unat len)"
    "sb_Read B backend offset len (world s) = (Inr n, stored, w)"
  shows "IFile_Read can_allocate B backend ctx s =
           Some (Push (PushU64 n) (Push (PushResult RESULT_SUCCESS)
                   (ResponseBuilder (WriteBuffer (store stored (replicate (unat len) 0)) ctx) 4 0 0)),
                 called (Call_Storage_Read offset len) w s)"
  using assms by (simp add: IFile_Read_def StorageBackend_Read_def vector_u8_def)

text \<open>
  Where the allocator cannot provide the vector, the exception leaves the handler before
  the backend is called and before any response is built.
\<close>

lemma Read_allocation_fails:
  assumes "0 \<le> sint len" "0 \<le> sint offset" "\<not> can_allocate (unat len)"
  shows "Pop_s64 (RequestParser ctx) = (offset, rp) \<Longrightarrow> Pop_s64 rp = (len, rp') \<Longrightarrow>
           IStorage_Read can_allocate B backend ctx s = None"
    and "Pop_u64 (RequestParser ctx) = (unk, rp0) \<Longrightarrow> Pop_s64 rp0 = (offset, rp) \<Longrightarrow>
           Pop_s64 rp = (len, rp') \<Longrightarrow> IFile_Read can_allocate B backend ctx s = None"
  using assms by (simp_all add: IStorage_Read_def IFile_Read_def vector_u8_def)

lemma Read_of_all_memory:
  "IStorage_Read (heap_of 4096) memory_file ()
     (request (no_args(2 := 0xFFFFFFFF, 3 := 0x7FFFFFFF)) [] 10 :: unit HLERequestContext)
     (fresh [1, 2, 3, 4]) = None"
  "IFile_Read (heap_of 4096) memory_file ()
     (request (no_args(4 := 0xFFFFFFFF, 5 := 0x7FFFFFFF)) [] 10 :: unit HLERequestContext)
     (fresh [1, 2, 3, 4]) = None"
  by (simp_all add: IStorage_Read_def IFile_Read_def vector_u8_def heap_of_def
      RequestParser_request Pop_s64_request Pop_u64_eval no_args_def)

lemma memory_file_Read_0_10:
  "sb_Read memory_file () 0 10 [1, 2, 3, 4] = (Inr 4, [1, 2, 3, 4], [1, 2, 3, 4])"
  by (simp add: memory_file_def)

lemma store_4_10: "store [1, 2, 3, 4 :: u8] (replicate 10 0) = [1, 2, 3, 4] @ replicate 6 0"
  by (simp add: store_def)

lemma unat_nonneg_sint:
  fixes w :: "'a::len word"
  assumes "0 \<le> sint w"
  shows "unat w = nat (sint w)"
proof -
  have "sint w < 2 ^ (LENGTH('a) - 1)"
    by (rule sint_lt)
  also have "(2::int) ^ (LENGTH('a) - 1) \<le> 2 ^ LENGTH('a)"
    by (rule power_increasing) simp_all
  finally have "take_bit LENGTH('a) (sint w) = sint w"
    using assms by (simp add: take_bit_int_eq_self)
  then have "uint w = sint w"
    by (simp add: uint_sint)
  then show ?thesis
    by (simp only: unat_eq_nat_uint)
qed

lemma replied:
  "Push item (ResponseBuilder (WriteBuffer output ctx) n c m) =
     ctx\<lparr>write_buffer := Some output,
         response := Some \<lparr>normal_params_size = n, num_handles_to_copy = c,
                           num_objects_to_move = m, pushed = [item]\<rparr>\<rparr>"
  "Push item2 (Push item1 (ResponseBuilder (WriteBuffer output ctx) n c m)) =
     ctx\<lparr>write_buffer := Some output,
         response := Some \<lparr>normal_params_size = n, num_handles_to_copy = c,
                           num_objects_to_move = m, pushed = [item1, item2]\<rparr>\<rparr>"
  by (simp_all add: Push_def ResponseBuilder_def WriteBuffer_def)

text \<open>
  C2, as amended. Storage Read with \<^verbatim>\<open>offset >= 0\<close>, \<^verbatim>\<open>length >= 0\<close>, an output vector of
  \<^verbatim>\<open>length\<close> bytes that the allocator can provide and a backend read that succeeds: the
  handler allocates \<^verbatim>\<open>length\<close> zero bytes, lets the backend store into them, and writes the
  whole vector of \<^verbatim>\<open>length\<close> bytes to the caller's buffer, whatever count the backend
  reported; the response is the status \<^verbatim>\<open>RESULT_SUCCESS\<close> alone, the backend was called
  once with the offset and length of the request, and nothing else of the context changes.
\<close>

theorem IStorage_Read_writes_whole_output:
  assumes "Pop_s64 (RequestParser ctx) = (offset, rp)" and "Pop_s64 rp = (len, rp')"
    and "0 \<le> sint offset" and "0 \<le> sint len"
    and "can_allocate (unat len)"
    and "sb_Read B backend offset len (world s) = (Inr n, stored, w)"
  shows "IStorage_Read can_allocate B backend ctx s =
           Some (ctx\<lparr>write_buffer := Some (store stored (replicate (unat len) 0)),
                     response := Some (status_only RESULT_SUCCESS)\<rparr>,
                 \<lparr>world = w, calls = calls s @ [Call_Storage_Read offset len]\<rparr>)
       \<and> length (store stored (replicate (unat len) 0)) = nat (sint len)"
proof -
  have "unat len = nat (sint len)"
    using \<open>0 \<le> sint len\<close> by (rule unat_nonneg_sint)
  then show ?thesis
    by (simp add: IStorage_Read_ok [where can_allocate = can_allocate, OF assms(1,2,4,3,5,6)] replied status_only_def called_def)
qed

text \<open>The theorem at a read of 10 bytes from a file of 4, with 4096 bytes to allocate.\<close>

theorem IStorage_Read_writes_whole_output_witness:
  "IStorage_Read (heap_of 4096) memory_file ()
     (request (no_args(2 := 10)) [] 10 :: unit HLERequestContext) (fresh [1, 2, 3, 4]) =
   Some (\<lparr>cmd_buf = no_args(2 := 10), read_buffer = [], write_buffer_size = 10,
          write_buffer = Some ([1, 2, 3, 4] @ replicate 6 0),
          response = Some (status_only RESULT_SUCCESS)\<rparr>,
         \<lparr>world = [1, 2, 3, 4], calls = [Call_Storage_Read 0 10]\<rparr>)"
proof -
  let ?a = "no_args(2 := 10)"
  have a: "Pop_s64 (RequestParser (request ?a [] 10 :: unit HLERequestContext)) = (0, (?a, 2))"
    "Pop_s64 (?a, 2) = (10, (?a, 4))"
    by (simp_all add: RequestParser_request Pop_s64_request no_args_def)
  have r: "sb_Read memory_file () 0 10 (world (fresh [1, 2, 3, 4])) =
      (Inr 4, [1, 2, 3, 4], [1, 2, 3, 4])"
    by (simp add: fresh_def memory_file_Read_0_10)
  have h: "heap_of 4096 (unat (10 :: s64))"
    by (simp add: heap_of_def)
  show ?thesis
    using IStorage_Read_writes_whole_output [where can_allocate = "heap_of 4096", OF a _ _ h r]
    by (simp add: store_4_10 request_def fresh_def)
qed

text \<open>
  C2 as stated fails: reading 10 bytes at offset 0 from a file of 4 bytes, the backend
  reports 4 bytes and the handler writes 10 to the caller's buffer.
\<close>

theorem IStorage_Read_count_counterexample:
  "sb_Read memory_file () 0 10 [1, 2, 3, 4] = (Inr 4, [1, 2, 3, 4], [1, 2, 3, 4])
   \<and> IStorage_Read (heap_of 4096) memory_file ()
        (request (no_args(2 := 10)) [] 10 :: unit HLERequestContext) (fresh [1, 2, 3, 4]) =
      Some (\<lparr>cmd_buf = no_args(2 := 10), read_buffer = [], write_buffer_size = 10,
             write_buffer = Some ([1, 2, 3, 4] @ replicate 6 0),
             response = Some (status_only RESULT_SUCCESS)\<rparr>,
            \<lparr>world = [1, 2, 3, 4], calls = [Call_Storage_Read 0 10]\<rparr>)
   \<and> length ([1, 2, 3, 4] @ replicate 6 (0 :: u8)) \<noteq> unat (4 :: u64)"
proof -
  let ?a = "no_args(2 := 10)"
  have a: "Pop_s64 (RequestParser (request ?a [] 10 :: unit HLERequestContext)) = (0, (?a, 2))"
    "Pop_s64 (?a, 2) = (10, (?a, 4))"
    by (simp_all add: RequestParser_request Pop_s64_request no_args_def)
  have r: "sb_Read memory_file () 0 10 (world (fresh [1, 2, 3, 4])) =
      (Inr 4, [1, 2, 3, 4], [1, 2, 3, 4])"
    by (simp add: fresh_def memory_file_Read_0_10)
  have p: "0 \<le> sint (10 :: s64)" "0 \<le> sint (0 :: s64)" "heap_of 4096 (unat (10 :: s64))"
    by (simp_all add: heap_of_def)
  show ?thesis
    unfolding IStorage_Read_ok [where can_allocate = "heap_of 4096", OF a p r]
    by (simp add: memory_file_Read_0_10 store_4_10 replied status_only_def called_def
        request_def fresh_def)
qed

text \<open>
  C4, as amended. File Read with \<^verbatim>\<open>offset >= 0\<close>, \<^verbatim>\<open>length >= 0\<close>, an output vector of
  \<^verbatim>\<open>length\<close> bytes that the allocator can provide and a backend read that succeeds: the
  response holds \<^verbatim>\<open>RESULT_SUCCESS\<close> and the count the backend reported, which may be smaller
  than the length asked for; the bytes written to the caller's buffer are the whole vector
  of \<^verbatim>\<open>length\<close> bytes, the ones the backend stored followed by zeros. The backend was
  called once and nothing else of the context changes.
\<close>

theorem IFile_Read_reports_count:
  assumes "Pop_u64 (RequestParser ctx) = (unk, rp0)" and "Pop_s64 rp0 = (offset, rp)"
    and "Pop_s64 rp = (len, rp')"
    and "0 \<le> sint offset" and "0 \<le> sint len"
    and "can_allocate (unat len)"
    and "sb_Read B backend offset len (world s) = (Inr n, stored, w)"
  shows "IFile_Read can_allocate B backend ctx s =
           Some (ctx\<lparr>write_buffer := Some (store stored (replicate (unat len) 0)),
                     response := Some \<lparr>normal_params_size = 4, num_handles_to_copy = 0,
                                       num_objects_to_move = 0,
                                       pushed = [PushResult RESULT_SUCCESS, PushU64 n]\<rparr>\<rparr>,
                 \<lparr>world = w, calls = calls s @ [Call_Storage_Read offset len]\<rparr>)
       \<and> length (store stored (replicate (unat len) 0)) = nat (sint len)"
proof -
  have "unat len = nat (sint len)"
    using \<open>0 \<le> sint len\<close> by (rule unat_nonneg_sint)
  then show ?thesis
    by (simp add: IFile_Read_ok [where can_allocate = can_allocate, OF assms(1,2,3,5,4,6,7)]
        replied(2) called_def)
qed

text \<open>
  The theorem at \<^verbatim>\<open>Read(offset = 0, length = 10)\<close> on a file of 4 bytes: success,
  \<^verbatim>\<open>bytes_read = 4\<close>, and 10 bytes written, the 4 of the file and 6 zeros.
\<close>

theorem IFile_Read_reports_count_witness:
  "IFile_Read (heap_of 4096) memory_file ()
     (request (no_args(4 := 10)) [] 10 :: unit HLERequestContext) (fresh [1, 2, 3, 4]) =
   Some (\<lparr>cmd_buf = no_args(4 := 10), read_buffer = [], write_buffer_size = 10,
          write_buffer = Some ([1, 2, 3, 4] @ replicate 6 0),
          response = Some \<lparr>normal_params_size = 4, num_handles_to_copy = 0,
                            num_objects_to_move = 0,
                            pushed = [PushResult RESULT_SUCCESS, PushU64 4]\<rparr>\<rparr>,
         \<lparr>world = [1, 2, 3, 4], calls = [Call_Storage_Read 0 10]\<rparr>)"
proof -
  let ?a = "no_args(4 := 10)"
  have a: "Pop_u64 (RequestParser (request ?a [] 10 :: unit HLERequestContext)) = (0, (?a, 2))"
    "Pop_s64 (?a, 2) = (0, (?a, 4))" "Pop_s64 (?a, 4) = (10, (?a, 6))"
    by (simp_all add: RequestParser_request Pop_s64_request Pop_u64_eval no_args_def)
  have r: "sb_Read memory_file () 0 10 (world (fresh [1, 2, 3, 4])) =
      (Inr 4, [1, 2, 3, 4], [1, 2, 3, 4])"
    by (simp add: fresh_def memory_file_Read_0_10)
  have h: "heap_of 4096 (unat (10 :: s64))"
    by (simp add: heap_of_def)
  show ?thesis
    using IFile_Read_reports_count [where can_allocate = "heap_of 4096", OF a _ _ h r]
    by (simp add: store_4_10 request_def fresh_def)
qed

text \<open>
  C4 as stated fails in its last part: at \<^verbatim>\<open>Read(offset = 0, length = 10)\<close> on a file of
  4 bytes the response reports 4 bytes read, and 10 bytes, not 4, go to the caller's
  buffer.
\<close>

theorem IFile_Read_copies_counterexample:
  "IFile_Read (heap_of 4096) memory_file ()
     (request (no_args(4 := 10)) [] 10 :: unit HLERequestContext) (fresh [1, 2, 3, 4]) =
   Some (\<lparr>cmd_buf = no_args(4 := 10), read_buffer = [], write_buffer_size = 10,
          write_buffer = Some ([1, 2, 3, 4] @ replicate 6 0),
          response = Some \<lparr>normal_params_size = 4, num_handles_to_copy = 0,
                            num_objects_to_move = 0,
                            pushed = [PushResult RESULT_SUCCESS, PushU64 4]\<rparr>\<rparr>,
         \<lparr>world = [1, 2, 3, 4], calls = [Call_Storage_Read 0 10]\<rparr>)
   \<and> length ([1, 2, 3, 4] @ replicate 6 (0 :: u8)) \<noteq> 4"
proof -
  let ?a = "no_args(4 := 10)"
  have a: "Pop_u64 (RequestParser (request ?a [] 10 :: unit HLERequestContext)) = (0, (?a, 2))"
    "Pop_s64 (?a, 2) = (0, (?a, 4))" "Pop_s64 (?a, 4) = (10, (?a, 6))"
    by (simp_all add: RequestParser_request Pop_s64_request Pop_u64_eval no_args_def)
  have r: "sb_Read memory_file () 0 10 (world (fresh [1, 2, 3, 4])) =
      (Inr 4, [1, 2, 3, 4], [1, 2, 3, 4])"
    by (simp add: fresh_def memory_file_Read_0_10)
  have p: "0 \<le> sint (10 :: s64)" "0 \<le> sint (0 :: s64)" "heap_of 4096 (unat (10 :: s64))"
    by (simp_all add: heap_of_def)
  show ?thesis
    unfolding IFile_Read_ok [where can_allocate = "heap_of 4096", OF a p r]
    by (simp add: store_4_10 replied(2) called_def request_def fresh_def)
qed













text \<open>
  C6. FileSystem OpenFile calls the backend once, with the path cut at the first zero
  byte and the mode of the request. If the backend fails, the response is the backend's
  code alone and holds no object; if it succeeds, the response is \<^verbatim>\<open>RESULT_SUCCESS\<close> and
  one \<^verbatim>\<open>IFile\<close> built from the handle the backend returned.
\<close>

theorem IFileSystem_OpenFile_reply:
  assumes "Pop_u32 (RequestParser ctx) = (mode, rp)"
    and "fb_OpenFile B backend (path_name (ReadBuffer ctx)) mode (world s) = (result, w)"
  shows "(\<forall>code. result = Inl code \<longrightarrow>
            response (fst (IFileSystem_OpenFile B backend ctx s)) = Some (status_only code))
       \<and> (\<forall>file. result = Inr file \<longrightarrow>
            response (fst (IFileSystem_OpenFile B backend ctx s)) =
              Some \<lparr>normal_params_size = 2, num_handles_to_copy = 0, num_objects_to_move = 1,
                    pushed = [PushResult RESULT_SUCCESS, PushIpcInterface (IFile file)]\<rparr>)
       \<and> snd (IFileSystem_OpenFile B backend ctx s) =
           \<lparr>world = w,
            calls = calls s @ [Call_FileSystem_OpenFile (path_name (ReadBuffer ctx)) mode]\<rparr>"
  using assms
  by (auto simp: IFileSystem_OpenFile_def FileSystemBackend_OpenFile_def called_def Let_def
      response_Push_ResponseBuilder response_Push_Push_ResponseBuilder status_only_def
      split: sum.splits)

text \<open>
  The theorem on a filesystem that holds the paths "b" and "a": opening "a" and opening
  the missing "c".
\<close>

theorem IFileSystem_OpenFile_reply_witness:
  "response (fst (IFileSystem_OpenFile path_list ()
       (request (no_args(0 := 1)) [97, 0, 98] 0 :: (u8 list, unit, unit) service_object HLERequestContext)
       (fresh [[98], [97]]))) =
     Some \<lparr>normal_params_size = 2, num_handles_to_copy = 0, num_objects_to_move = 1,
           pushed = [PushResult RESULT_SUCCESS, PushIpcInterface (IFile [97])]\<rparr>
   \<and> response (fst (IFileSystem_OpenFile path_list ()
       (request (no_args(0 := 1)) [99, 0] 0 :: (u8 list, unit, unit) service_object HLERequestContext)
       (fresh [[98], [97]]))) =
     Some (status_only (ResultCode 1))"
proof -
  let ?a = "no_args(0 := 1)"
  have a: "Pop_u32 (RequestParser (request ?a [97, 0, 98] 0
      :: (u8 list, unit, unit) service_object HLERequestContext)) = (1, (?a, 1))"
    and b: "Pop_u32 (RequestParser (request ?a [99, 0] 0
      :: (u8 list, unit, unit) service_object HLERequestContext)) = (1, (?a, 1))"
    by (simp_all add: RequestParser_request Pop_u32_def)
  have found: "fb_OpenFile path_list ()
      (path_name (ReadBuffer (request ?a [97, 0, 98] 0
         :: (u8 list, unit, unit) service_object HLERequestContext))) 1
      (world (fresh [[98], [97]])) = (Inr [97], [[98], [97]])"
    and missing: "fb_OpenFile path_list ()
      (path_name (ReadBuffer (request ?a [99, 0] 0
         :: (u8 list, unit, unit) service_object HLERequestContext))) 1
      (world (fresh [[98], [97]])) = (Inl (ResultCode 1), [[98], [97]])"
    by (simp_all add: path_list_def path_name_def ReadBuffer_def request_def fresh_def)
  show ?thesis
    using IFileSystem_OpenFile_reply [OF a found] IFileSystem_OpenFile_reply [OF b missing]
    by simp
qed

text \<open>
  C9. File Flush and File SetSize call the backend once (SetSize with the size popped
  from the request), keep the world the backend leaves and answer \<^verbatim>\<open>RESULT_SUCCESS\<close>
  whatever the backend returned.
\<close>

theorem IFile_Flush_SetSize_always_succeed:
  "response (fst (IFile_Flush B backend ctx s)) = Some (status_only RESULT_SUCCESS)
   \<and> snd (IFile_Flush B backend ctx s) =
       \<lparr>world = snd (sb_Flush B backend (world s)), calls = calls s @ [Call_Storage_Flush]\<rparr>
   \<and> response (fst (IFile_SetSize B backend ctx s)) = Some (status_only RESULT_SUCCESS)
   \<and> snd (IFile_SetSize B backend ctx s) =
       \<lparr>world = snd (sb_SetSize B backend (fst (Pop_u64 (RequestParser ctx))) (world s)),
        calls = calls s @ [Call_Storage_SetSize (fst (Pop_u64 (RequestParser ctx)))]\<rparr>"
  by (simp add: IFile_Flush_def IFile_SetSize_def StorageBackend_Flush_def
      StorageBackend_SetSize_def called_def response_Push_ResponseBuilder status_only_def
      split_beta Let_def)

text \<open>
  C10. FileSystem CreateFile: two requests with the same input buffer and the same size,
  whatever their modes, make the same backend call (path and size only), leave the same
  world and get the same response, the code the backend returned.
\<close>

theorem IFileSystem_CreateFile_ignores_mode:
  assumes "Pop_u64 (RequestParser ctx1) = (mode1, rp1)" and "Pop_u32 rp1 = (file_size, rp1')"
    and "Pop_u64 (RequestParser ctx2) = (mode2, rp2)" and "Pop_u32 rp2 = (file_size, rp2')"
    and "ReadBuffer ctx1 = ReadBuffer ctx2"
  shows "snd (IFileSystem_CreateFile B backend ctx1 s) = snd (IFileSystem_CreateFile B backend ctx2 s)
       \<and> calls (snd (IFileSystem_CreateFile B backend ctx1 s)) =
           calls s @ [Call_FileSystem_CreateFile (path_name (ReadBuffer ctx1)) file_size]
       \<and> response (fst (IFileSystem_CreateFile B backend ctx1 s)) =
           response (fst (IFileSystem_CreateFile B backend ctx2 s))
       \<and> response (fst (IFileSystem_CreateFile B backend ctx1 s)) =
           Some (status_only
             (fst (fb_CreateFile B backend (path_name (ReadBuffer ctx1)) file_size (world s))))"
  using assms
  by (simp add: IFileSystem_CreateFile_def FileSystemBackend_CreateFile_def called_def
      response_Push_ResponseBuilder status_only_def split_beta Let_def)

text \<open>
  The theorem for the path "a" and size 100, once with mode 1 and once with mode
  0x700000007.
\<close>

theorem IFileSystem_CreateFile_ignores_mode_witness:
  "snd (IFileSystem_CreateFile path_list ()
       (request (no_args(0 := 1, 2 := 100)) [97, 0] 0 :: unit HLERequestContext) (fresh [])) =
   snd (IFileSystem_CreateFile path_list ()
       (request (no_args(0 := 7, 1 := 7, 2 := 100)) [97, 0] 0 :: unit HLERequestContext) (fresh []))
   \<and> calls (snd (IFileSystem_CreateFile path_list ()
       (request (no_args(0 := 1, 2 := 100)) [97, 0] 0 :: unit HLERequestContext) (fresh []))) =
     [Call_FileSystem_CreateFile [97] 100]
   \<and> response (fst (IFileSystem_CreateFile path_list ()
       (request (no_args(0 := 1, 2 := 100)) [97, 0] 0 :: unit HLERequestContext) (fresh []))) =
     response (fst (IFileSystem_CreateFile path_list ()
       (request (no_args(0 := 7, 1 := 7, 2 := 100)) [97, 0] 0 :: unit HLERequestContext) (fresh [])))"
proof -
  let ?a = "no_args(0 := 1, 2 := 100)"
  let ?b = "no_args(0 := 7, 1 := 7, 2 := 100)"
  have a: "Pop_u64 (RequestParser (request ?a [97, 0] 0 :: unit HLERequestContext)) = (1, (?a, 2))"
    "Pop_u32 (?a, 2) = (100, (?a, 3))"
    and b: "Pop_u64 (RequestParser (request ?b [97, 0] 0 :: unit HLERequestContext)) =
      (0x700000007, (?b, 2))"
    "Pop_u32 (?b, 2) = (100, (?b, 3))"
    by (simp_all add: RequestParser_request Pop_u64_eval Pop_u32_def no_args_def)
  have c: "ReadBuffer (request ?a [97, 0] 0 :: unit HLERequestContext) =
    ReadBuffer (request ?b [97, 0] 0 :: unit HLERequestContext)"
    by (simp add: ReadBuffer_def request_def)
  have d: "path_name (ReadBuffer (request ?a [97, 0] 0 :: unit HLERequestContext)) = [97]"
    "calls (fresh [] :: u8 list list sys) = []"
    by (simp_all add: path_name_def ReadBuffer_def request_def fresh_def)
  note w = IFileSystem_CreateFile_ignores_mode
    [OF a b c, of path_list "()" "fresh []", unfolded d append_Nil]
  show ?thesis
    using w by (elim conjE, intro conjI) assumption+
qed

lemma Mount_failed_open:
  assumes "fst (open_fs SDMC [] (world s)) = Inl code"
    and "fst (open_fs SaveData [] (world s)) = Inl code'"
  shows "MountSdCard open_fs ctx s = None" and "MountSaveData open_fs ctx s = None"
  using assms
  by (simp_all add: MountSdCard_def MountSaveData_def OpenFileSystem_def Unwrap_def split_beta)

lemma MountSdCard_opened:
  assumes "open_fs SDMC [] (world s) = (Inr filesystem, w)"
  shows "MountSdCard open_fs ctx s =
           Some (Push (PushIpcInterface (IFileSystem filesystem))
                   (Push (PushResult RESULT_SUCCESS) (ResponseBuilder ctx 2 0 1)),
                 called (Call_OpenFileSystem SDMC) w s)"
  using assms by (simp add: MountSdCard_def OpenFileSystem_def Unwrap_def)

text \<open>
  C7 fails on the code. Where no SD card archive and no save data archive is registered,
  \<^verbatim>\<open>OpenFileSystem\<close> fails, and \<^verbatim>\<open>MountSdCard\<close> and \<^verbatim>\<open>MountSaveData\<close> stop in \<^verbatim>\<open>Unwrap()\<close>
  before any response is built.
\<close>

theorem Mount_without_archive_gives_no_status:
  "MountSdCard (registered [RomFS])
      (request no_args [] 0 :: (unit, unit, unit) service_object HLERequestContext) (fresh ()) = None
   \<and> MountSaveData (registered [RomFS])
      (request no_args [] 0 :: (unit, unit, unit) service_object HLERequestContext) (fresh ()) = None"
  by (simp add: MountSdCard_def MountSaveData_def OpenFileSystem_def registered_def Unwrap_def
      fresh_def)

text \<open>
  C8. \<^verbatim>\<open>CreateSaveData\<close>: whatever the two 0x40-byte descriptors and the user id in the
  request are, the response is the single status \<^verbatim>\<open>RESULT_SUCCESS\<close>, no backend call is
  made and the outside world is left as it was.
\<close>

theorem CreateSaveData_success_no_backend:
  "response (fst (CreateSaveData ctx s)) =
     Some \<lparr>normal_params_size = 2, num_handles_to_copy = 0, num_objects_to_move = 0,
           pushed = [PushResult RESULT_SUCCESS]\<rparr>
   \<and> write_buffer (fst (CreateSaveData ctx s)) = write_buffer ctx
   \<and> snd (CreateSaveData ctx s) = s"
  by (simp add: CreateSaveData_def ResponseBuilder_def Push_def Let_def split_beta)

end
